theory Spec2Isabelle
  imports Complex_Main "HOL-Library.Multiset" "HOL-Library.Sublist"
begin

section \<open>Array helpers\<close>

text \<open>
  The detector of \<^verbatim>\<open>yasa/main.py\<close> works on one-dimensional numpy arrays. An array of
  sample indices is an \<open>int list\<close>, an array of samples a \<open>real list\<close>. The numpy
  operations the source applies to them are written out below, one definition each.
\<close>

datatype error = AssertionError | KeyError | TypeError | ZeroDivisionError
  | IndexError | ValueError

definition np_diff :: "'a::minus list \<Rightarrow> 'a list" where
  \<comment> \<open>\<^verbatim>\<open>np.diff(a)\<close>: \<open>a[i+1] - a[i]\<close>; empty for fewer than two elements.\<close>
  "np_diff a = map (\<lambda>i. a ! Suc i - a ! i) [0..<length a - 1]"

definition np_where :: "bool list \<Rightarrow> nat list" where
  \<comment> \<open>\<^verbatim>\<open>np.where(c)[0]\<close>: the positions at which \<open>c\<close> holds, ascending.\<close>
  "np_where c = filter (\<lambda>i. c ! i) [0..<length c]"

definition np_mask :: "'a list \<Rightarrow> bool list \<Rightarrow> 'a list" where
  \<comment> \<open>\<^verbatim>\<open>a[c]\<close> for a boolean array \<open>c\<close> of the length of \<open>a\<close>.\<close>
  "np_mask a c = map ((!) a) (np_where c)"

definition np_arange_int :: "int \<Rightarrow> int \<Rightarrow> int list" where
  \<comment> \<open>\<^verbatim>\<open>np.arange(a, b)\<close> on integers: \<open>a, a+1, ..., b-1\<close>.\<close>
  "np_arange_int a b = [a..b - 1]"

section \<open>Merging events that are too close\<close>

definition events_distance_fill :: "int list \<Rightarrow> real \<Rightarrow> real \<Rightarrow> int list" where
  \<comment> \<open>\<^verbatim>\<open>_events_distance_fill(index, min_distance_ms, sf)\<close>, lines 217-253.\<close>
  "events_distance_fill index min_distance_ms sf =
    (let min_distance = min_distance_ms / 1000 * sf;
         idx_diff = np_diff index;
         condition = map (\<lambda>d. d > 1) idx_diff;
         idx_distance = np_where condition;
         distance = np_mask idx_diff condition;
         bad = map ((!) idx_distance)
                 (np_where (map (\<lambda>d. real_of_int d < min_distance) distance))
     in if length bad > 0
        then (let fill = concat (map (\<lambda>j. np_arange_int (index ! j + 1) (index ! (j + 1))) bad);
                  f_index = sort (index @ fill)
              in f_index)
        else index)"


definition merge_events :: "real option \<Rightarrow> real \<Rightarrow> int list \<Rightarrow> int list" where
  \<comment> \<open>The merge step of \<^verbatim>\<open>spindles_detect\<close>, lines 429-431:
      \<^verbatim>\<open>if min_distance is not None and min_distance > 0: where_sp = _events_distance_fill(...)\<close>.\<close>
  "merge_events min_distance sf where_sp =
     (case min_distance of
        None \<Rightarrow> where_sp
      | Some m \<Rightarrow> if m > 0 then events_distance_fill where_sp m sf else where_sp)"

section \<open>Floating-point values\<close>

text \<open>
  A float is modelled as an exact real number or one of the three special values of
  IEEE-754; rounding is not modelled, and zero carries no sign (a division by zero takes
  it as \<open>+0\<close>). The operations follow numpy: they never raise, the quotient \<open>0/0\<close> is
  \<open>NaN\<close>, and every comparison with \<open>NaN\<close> is false.
\<close>

datatype fl = Fin real | PInf | NInf | NaN

fun fl_add :: "fl \<Rightarrow> fl \<Rightarrow> fl" where
  "fl_add (Fin a) (Fin b) = Fin (a + b)"
| "fl_add NaN _ = NaN"
| "fl_add _ NaN = NaN"
| "fl_add PInf NInf = NaN"
| "fl_add NInf PInf = NaN"
| "fl_add PInf _ = PInf"
| "fl_add _ PInf = PInf"
| "fl_add NInf _ = NInf"
| "fl_add _ NInf = NInf"

fun fl_divide :: "fl \<Rightarrow> fl \<Rightarrow> fl" where
  "fl_divide (Fin a) (Fin b) =
     (if b \<noteq> 0 then Fin (a / b) else if a > 0 then PInf else if a < 0 then NInf else NaN)"
| "fl_divide NaN _ = NaN"
| "fl_divide _ NaN = NaN"
| "fl_divide (Fin a) _ = Fin 0"
| "fl_divide PInf (Fin b) = (if b \<ge> 0 then PInf else NInf)"
| "fl_divide NInf (Fin b) = (if b \<ge> 0 then NInf else PInf)"
| "fl_divide _ _ = NaN"

fun fl_ge :: "fl \<Rightarrow> fl \<Rightarrow> bool" where
  \<comment> \<open>\<^verbatim>\<open>a >= b\<close>\<close>
  "fl_ge NaN _ = False"
| "fl_ge _ NaN = False"
| "fl_ge (Fin a) (Fin b) = (a \<ge> b)"
| "fl_ge PInf _ = True"
| "fl_ge _ NInf = True"
| "fl_ge _ _ = False"

definition fl_le :: "fl \<Rightarrow> fl \<Rightarrow> bool" where
  \<comment> \<open>\<^verbatim>\<open>a <= b\<close>\<close>
  "fl_le a b = fl_ge b a"

fun fl_square :: "fl \<Rightarrow> fl" where
  \<comment> \<open>\<^verbatim>\<open>np.square\<close>\<close>
  "fl_square (Fin a) = Fin (a * a)"
| "fl_square NaN = NaN"
| "fl_square _ = PInf"

fun fl_sqrt :: "fl \<Rightarrow> fl" where
  \<comment> \<open>\<^verbatim>\<open>np.sqrt\<close>\<close>
  "fl_sqrt (Fin a) = (if a \<ge> 0 then Fin (sqrt a) else NaN)"
| "fl_sqrt PInf = PInf"
| "fl_sqrt _ = NaN"

fun fl_log10 :: "fl \<Rightarrow> fl" where
  \<comment> \<open>\<^verbatim>\<open>np.log10\<close>: \<open>-inf\<close> at zero, \<open>NaN\<close> below.\<close>
  "fl_log10 (Fin a) = (if a > 0 then Fin (log 10 a) else if a = 0 then NInf else NaN)"
| "fl_log10 PInf = PInf"
| "fl_log10 _ = NaN"

definition fl_sum :: "fl list \<Rightarrow> fl" where
  "fl_sum xs = foldl fl_add (Fin 0) xs"

definition fl_mean :: "fl list \<Rightarrow> fl" where
  \<comment> \<open>\<^verbatim>\<open>np.mean\<close>; \<open>NaN\<close> on an empty array.\<close>
  "fl_mean xs = fl_divide (fl_sum xs) (Fin (real (length xs)))"

section \<open>The jitted kernels\<close>

text \<open>
  Lines 21-44. The kernels take arrays of finite samples. Their divisions are float
  divisions: over an empty window the mean is \<open>0/0\<close>, and \<^verbatim>\<open>_corr\<close> divides by
  \<open>r_den\<close> whatever its value. (Where the length is zero the mean is subtracted from no
  element, so the value HOL gives \<open>x / 0\<close> is never used.)
\<close>

definition np_mean :: "real list \<Rightarrow> real" where
  "np_mean x = sum_list x / real (length x)"

definition corr :: "real list \<Rightarrow> real list \<Rightarrow> fl" where
  \<comment> \<open>\<^verbatim>\<open>_corr(x, y)\<close>, on two arrays of one length.\<close>
  "corr x y =
    (let mx = np_mean x; my = np_mean y;
         xm = map (\<lambda>v. v - mx) x; ym = map (\<lambda>v. v - my) y;
         r_num = sum_list (map2 (*) xm ym);
         r_den = sqrt (sum_list (map (\<lambda>v. v\<^sup>2) xm)) * sqrt (sum_list (map (\<lambda>v. v\<^sup>2) ym))
     in fl_divide (Fin r_num) (Fin r_den))"

definition covar :: "real list \<Rightarrow> real list \<Rightarrow> fl" where
  \<comment> \<open>\<^verbatim>\<open>_covar(x, y)\<close>, on two arrays of one length.\<close>
  "covar x y =
    (let n = length x;
         mx = np_mean x; my = np_mean y;
         xm = map (\<lambda>v. v - mx) x; ym = map (\<lambda>v. v - my) y;
         cov = sum_list (map2 (*) xm ym)
     in fl_divide (Fin cov) (Fin (real n - 1)))"

definition rms :: "real list \<Rightarrow> fl" where
  \<comment> \<open>\<^verbatim>\<open>_rms(x)\<close>\<close>
  "rms x = fl_sqrt (fl_divide (Fin (sum_list (map (\<lambda>v. v\<^sup>2) x))) (Fin (real (length x))))"

section \<open>More array helpers\<close>

definition trunc_int :: "real \<Rightarrow> int" where
  \<comment> \<open>\<^verbatim>\<open>int(r)\<close> and \<^verbatim>\<open>.astype(int)\<close>: truncation toward zero.\<close>
  "trunc_int r = (if r \<ge> 0 then \<lfloor>r\<rfloor> else \<lceil>r\<rceil>)"

definition np_arange :: "real \<Rightarrow> real \<Rightarrow> real \<Rightarrow> real list" where
  \<comment> \<open>\<^verbatim>\<open>np.arange(start, stop, step)\<close> on floats: \<open>ceil((stop - start) / step)\<close> values
      \<open>start + i * step\<close>.\<close>
  "np_arange start stop step =
     map (\<lambda>i. start + real i * step) [0..<nat \<lceil>(stop - start) / step\<rceil>]"

definition py_slice :: "'a list \<Rightarrow> int \<Rightarrow> int \<Rightarrow> 'a list" where
  \<comment> \<open>\<^verbatim>\<open>a[b:e]\<close>: a negative bound counts from the end, both bounds are clipped.\<close>
  "py_slice a b e =
     (let n = int (length a);
          b' = (if b < 0 then max 0 (b + n) else min b n);
          e' = (if e < 0 then max 0 (e + n) else min e n)
      in take (nat (e' - b')) (drop (nat b') a))"

definition fancy :: "'a list \<Rightarrow> int list \<Rightarrow> error + 'a list" where
  \<comment> \<open>\<^verbatim>\<open>a[idx]\<close> for an integer array \<open>idx\<close>: a negative index counts from the end, an
      index outside \<open>[-n, n)\<close> raises IndexError.\<close>
  "fancy a idx =
     (let n = int (length a)
      in if list_all (\<lambda>i. - n \<le> i \<and> i < n) idx
         then Inr (map (\<lambda>i. a ! nat (i mod n)) idx)
         else Inl IndexError)"


record prims =
  resample :: "real list \<Rightarrow> real \<Rightarrow> real list"
  filter_data :: "real list \<Rightarrow> real \<Rightarrow> real \<Rightarrow> real \<Rightarrow> real list"
  stft :: "real list \<Rightarrow> real \<Rightarrow> int \<Rightarrow> int \<Rightarrow> real list \<times> real list \<times> complex list list"
  interp1d :: "real list \<Rightarrow> fl list \<Rightarrow> real list \<Rightarrow> fl list"
  interp2d :: "fl list \<Rightarrow> real list \<Rightarrow> real list list \<Rightarrow> fl list \<Rightarrow> real list \<Rightarrow> real list list"
  next_fast_len :: "nat \<Rightarrow> nat"
  hilbert :: "real list \<Rightarrow> nat \<Rightarrow> complex list"
  angle :: "complex \<Rightarrow> real"
  percentile :: "fl list \<Rightarrow> real \<Rightarrow> fl"
  detrend :: "real list \<Rightarrow> real list"
  find_peaks :: "real list \<Rightarrow> real \<Rightarrow> (nat \<times> real) list"
  median :: "real list \<Rightarrow> real"

section \<open>Moving transformation\<close>

definition moving_transform ::
  "prims \<Rightarrow> real list \<Rightarrow> real list option \<Rightarrow> real \<Rightarrow> real \<Rightarrow> real \<Rightarrow> string \<Rightarrow> bool
     \<Rightarrow> error + (real list \<times> fl list)" where
  \<comment> \<open>\<^verbatim>\<open>moving_transform(x, y, sf, window, step, method, interp)\<close>, lines 51-141.\<close>
  "moving_transform P x y sf window step method interp =
    (if method \<notin> set [''covar'', ''corr'', ''rms''] then Inl AssertionError
     else if (case y of None \<Rightarrow> False | Some y' \<Rightarrow> length x \<noteq> length y') then Inl AssertionError
     else if sf = 0 then Inl ZeroDivisionError
     else
       let step = (if step = 0 then 1 / sf else step);
           halfdur = window / 2;
           n = length x;
           total_dur = real n / sf;
           last = int n - 1;
           idx = np_arange 0 total_dur step;
           beg = map (\<lambda>c. max 0 (trunc_int ((c - halfdur) * sf))) idx;
           end = map (\<lambda>c. min last (trunc_int ((c + halfdur) * sf))) idx;
           t = map2 (\<lambda>e b. ((real_of_int e + real_of_int b) / 2) / sf) end beg;
           finish = (\<lambda>out.
             if interp \<and> step \<noteq> 1 / sf
             then (let t' = map (\<lambda>i. real i / sf) [0..<n] in Inr (t', interp1d P t out t'))
             else Inr (t, out))
       in if method \<in> set [''covar'', ''corr'']
          then (case y of
                  None \<Rightarrow> if idx = [] then finish [] else Inl TypeError
                | Some y' \<Rightarrow>
                    finish (map2 (\<lambda>b e. (if method = ''covar'' then covar else corr)
                                          (py_slice x b e) (py_slice y' b e)) beg end))
          else finish (map2 (\<lambda>b e. rms (py_slice x b e)) beg end))"

section \<open>Index arrays and the boolean vector\<close>



section \<open>Notions used in the statements\<close>

definition gap :: "int list \<Rightarrow> nat \<Rightarrow> int" where
  \<comment> \<open>The distance in samples between two consecutive candidate indices.\<close>
  "gap index j = index ! Suc j - index ! j"

definition bad_gaps :: "int list \<Rightarrow> real \<Rightarrow> nat list" where
  \<comment> \<open>The positions whose distance to the next index is more than one sample and less
      than \<open>md\<close> samples.\<close>
  "bad_gaps index md =
     filter (\<lambda>j. 1 < gap index j \<and> real_of_int (gap index j) < md) [0..<length index - 1]"

definition fill_of :: "int list \<Rightarrow> real \<Rightarrow> int list" where
  \<comment> \<open>The indices strictly inside those gaps.\<close>
  "fill_of index md =
     concat (map (\<lambda>j. np_arange_int (index ! j + 1) (index ! (j + 1))) (bad_gaps index md))"


section \<open>Power via the short-time Fourier transform\<close>

text \<open>
  A two-dimensional array of shape \<open>(f, t)\<close> is kept by columns: one list of length \<open>|f|\<close>
  for each time point, so \<^verbatim>\<open>Sxx.sum(0)\<close> sums each column and \<^verbatim>\<open>Sxx[idx, :]\<close> masks each
  column.
\<close>

definition stft_power ::
  "prims \<Rightarrow> real list \<Rightarrow> real \<Rightarrow> real \<Rightarrow> real \<Rightarrow> (real \<times> real) option \<Rightarrow> bool \<Rightarrow> bool
     \<Rightarrow> error + (real list \<times> fl list \<times> fl list list)" where
  \<comment> \<open>\<^verbatim>\<open>stft_power(data, sf, window, step, band, interp, norm)\<close>, lines 144-214. The
      assertion of line 184 subscripts \<open>band\<close>, so a band of \<open>None\<close> raises there;
      \<open>normalise\<close> is the parameter \<open>norm\<close>.\<close>
  "stft_power P data sf window step band interp normalise =
    (if \<not> step \<le> window then Inl AssertionError
     else case band of
       None \<Rightarrow> Inl TypeError
     | Some (b0, b1) \<Rightarrow>
        if \<not> b0 < b1 then Inl AssertionError
        else if step = 0 \<and> sf = 0 then Inl ZeroDivisionError
        else
          let step = (if step = 0 then 1 / sf else step);
              nperseg = trunc_int (window * sf);
              noverlap = trunc_int (real_of_int nperseg - step * sf);
              (f, t, Zxx) = stft P data sf nperseg noverlap;
              idx_band = map (\<lambda>v. v \<ge> b0 \<and> v \<le> b1) f;
              f = np_mask f idx_band;
              Zxx = map (\<lambda>col. np_mask col idx_band) Zxx;
              Sxx = map (map (\<lambda>z. (cmod z)\<^sup>2)) Zxx;
              (t, Sxx) =
                (if interp
                 then (let t' = map (\<lambda>i. fl_divide (Fin (real i)) (Fin sf)) [0..<length data]
                       in (t', interp2d P (map Fin t) f Sxx t' f))
                 else (map Fin t, Sxx));
              Sxx = map (map Fin) Sxx;
              Sxx = (if normalise
                     then map (\<lambda>col. let sum_pow = fl_sum col
                                     in map (\<lambda>v. fl_divide v sum_pow) col) Sxx
                     else Sxx)
          in Inr (f, t, Sxx))"

section \<open>The detector\<close>

text \<open>
  \<^verbatim>\<open>spindles_detect\<close>, lines 312-495, in the order of the source. Beside its outcome the
  model returns the list of the array computations the call has completed, so that what
  happens before an error is raised can be stated.
\<close>

datatype stage = Resample real | Bandpass real real | StftPower | MovingCorr | MovingRms
  | HilbertPhase

record criteria =
  c_rel_pow :: "fl list"
  c_mcorr :: "fl list"
  c_mrms :: "fl list"
  c_abs_pow_log :: "fl list"
  c_inst_freq :: "real list"

record spindle =
  Start :: real
  End :: real
  Duration :: real
  Amplitude :: real
  RMS :: fl
  AbsPower :: fl
  RelPower :: fl
  Frequency :: real
  Oscillations :: nat
  Symmetry :: fl
  Confidence :: string

definition preprocess ::
  "prims \<Rightarrow> real list \<Rightarrow> real \<Rightarrow> real \<times> real \<Rightarrow> real \<times> real
     \<Rightarrow> stage list \<times> real \<times> real list \<times> real list" where
  \<comment> \<open>Lines 367-383: downsampling to 100 Hz, the broadband filter, the sigma filter.\<close>
  "preprocess P data sf freq_sp freq_broad =
    (let (trace, data, sf) =
           (if sf \<ge> 200
            then (let fac = 100 / sf in ([Resample fac], resample P data fac, 100))
            else ([], data, sf));
         data = filter_data P data sf (fst freq_broad) (snd freq_broad);
         trans = (if snd freq_sp - fst freq_sp > 3 then 1 else 0);
         data_sigma = filter_data P data sf (fst freq_sp + trans) (snd freq_sp - trans)
     in (trace @ [Bandpass (fst freq_broad) (snd freq_broad),
                Bandpass (fst freq_sp + trans) (snd freq_sp - trans)],
         sf, data, data_sigma))"

definition abs_pow_log_of :: "fl list \<Rightarrow> fl list" where
  \<comment> \<open>Lines 397-399: \<^verbatim>\<open>mms = np.square(mrms); mms[mms <= 0] = 0.000000001;
      abs_pow_log = np.log10(mms)\<close>.\<close>
  "abs_pow_log_of mrms =
    (let mms = map fl_square mrms;
         mms = map (\<lambda>v. if fl_le v (Fin 0) then Fin (1 / 10 ^ 9) else v) mms
     in map fl_log10 mms)"

definition compute_criteria ::
  "prims \<Rightarrow> real \<Rightarrow> real list \<Rightarrow> real list \<Rightarrow> real \<times> real \<Rightarrow> real \<times> real
     \<Rightarrow> stage list \<times> (error + criteria)" where
  \<comment> \<open>Lines 385-406.\<close>
  "compute_criteria P sf data data_sigma freq_sp freq_broad =
    (case stft_power P data sf 2 0.05 (Some freq_broad) True False of
       Inl e \<Rightarrow> ([], Inl e)
     | Inr (f, _, Sxx) \<Rightarrow>
        let idx_sigma = map (\<lambda>v. v \<ge> fst freq_sp \<and> v \<le> snd freq_sp) f;
            rel_pow = map (\<lambda>col. fl_divide (fl_sum (np_mask col idx_sigma)) (fl_sum col)) Sxx
        in case moving_transform P data_sigma (Some data) sf 0.3 0.1 ''corr'' True of
             Inl e \<Rightarrow> ([StftPower], Inl e)
           | Inr (_, mcorr) \<Rightarrow>
              (case moving_transform P data_sigma (Some data) sf 0.3 0.1 ''rms'' True of
                 Inl e \<Rightarrow> ([StftPower, MovingCorr], Inl e)
               | Inr (_, mrms) \<Rightarrow>
                  let abs_pow_log = abs_pow_log_of mrms;
                      n = length data_sigma;
                      nfast = next_fast_len P n;
                      phase_sigma = map (angle P) (take n (hilbert P data_sigma nfast));
                      inst_freq = map (\<lambda>d. sf / (2 * pi) * d) (np_diff phase_sigma)
                  in ([StftPower, MovingCorr, MovingRms, HilbertPhase],
                      Inr \<lparr>c_rel_pow = rel_pow, c_mcorr = mcorr, c_mrms = mrms,
                           c_abs_pow_log = abs_pow_log, c_inst_freq = inst_freq\<rparr>)))"

definition np_add :: "int list \<Rightarrow> int list \<Rightarrow> error + int list" where
  \<comment> \<open>\<^verbatim>\<open>a + b\<close> on one-dimensional arrays: an array of one element is broadcast, other
      unequal lengths raise ValueError.\<close>
  "np_add a b =
    (if length a = length b then Inr (map2 (+) a b)
     else if length a = 1 then Inr (map (\<lambda>v. hd a + v) b)
     else if length b = 1 then Inr (map (\<lambda>v. v + hd b) a)
     else Inl ValueError)"

definition as_int :: "bool list \<Rightarrow> int list" where
  \<comment> \<open>\<^verbatim>\<open>.astype(int)\<close> of a boolean array\<close>
  "as_int bs = map (\<lambda>b. if b then 1 else 0) bs"

definition idx_sum_of :: "prims \<Rightarrow> (string \<rightharpoonup> real) \<Rightarrow> criteria \<Rightarrow> error + int list" where
  \<comment> \<open>Lines 408-413: the four criteria and their sum. A key that \<open>thresh\<close> lacks raises
      KeyError where it is read.\<close>
  "idx_sum_of P thresh c =
    (case thresh ''abs_pow'' of None \<Rightarrow> Inl KeyError | Some t_abs_pow \<Rightarrow>
     let idx_abs_pow = as_int (map (\<lambda>v. fl_ge v (Fin t_abs_pow)) (c_abs_pow_log c)) in
     case thresh ''rel_pow'' of None \<Rightarrow> Inl KeyError | Some t_rel_pow \<Rightarrow>
     let idx_rel_pow = as_int (map (\<lambda>v. fl_ge v (Fin t_rel_pow)) (c_rel_pow c)) in
     case thresh ''corr'' of None \<Rightarrow> Inl KeyError | Some t_corr \<Rightarrow>
     let idx_mcorr = as_int (map (\<lambda>v. fl_ge v (Fin t_corr)) (c_mcorr c)) in
     case thresh ''rms'' of None \<Rightarrow> Inl KeyError | Some t_rms \<Rightarrow>
     let p = percentile P (c_mrms c) t_rms;
         idx_mrms = as_int (map (\<lambda>v. fl_ge v p) (c_mrms c))
     in case np_add idx_abs_pow idx_rel_pow of Inl e \<Rightarrow> Inl e | Inr s1 \<Rightarrow>
        case np_add s1 idx_mcorr of Inl e \<Rightarrow> Inl e | Inr s2 \<Rightarrow>
        np_add s2 idx_mrms)"

definition detect_votes ::
  "prims \<Rightarrow> real list \<Rightarrow> real \<Rightarrow> real \<times> real \<Rightarrow> real \<times> real \<Rightarrow> (string \<rightharpoonup> real)
     \<Rightarrow> stage list \<times> (error + (real \<times> real list \<times> criteria \<times> int list))" where
  \<comment> \<open>Lines 362-413: from the safety check to \<open>idx_sum\<close>.\<close>
  "detect_votes P data sf freq_sp freq_broad thresh =
    (if \<not> fst freq_sp < snd freq_sp then ([], Inl AssertionError)
     else if \<not> fst freq_broad < snd freq_broad then ([], Inl AssertionError)
     else
       let (trace1, sf, data, data_sigma) = preprocess P data sf freq_sp freq_broad
       in case compute_criteria P sf data data_sigma freq_sp freq_broad of
            (trace2, Inl e) \<Rightarrow> (trace1 @ trace2, Inl e)
          | (trace2, Inr c) \<Rightarrow>
              (trace1 @ trace2,
               case idx_sum_of P thresh c of
                 Inl e \<Rightarrow> Inl e
               | Inr idx_sum \<Rightarrow> Inr (sf, data, c, idx_sum)))"

definition where_sp_of :: "int list \<Rightarrow> int list" where
  \<comment> \<open>Line 422: \<^verbatim>\<open>np.where(idx_sum >= 3)[0]\<close>\<close>
  "where_sp_of idx_sum = map int (np_where (map (\<lambda>v. v \<ge> 3) idx_sum))"

definition np_split :: "'a list \<Rightarrow> nat list \<Rightarrow> 'a list list" where
  \<comment> \<open>\<^verbatim>\<open>np.split(a, ps)\<close>: \<open>a[:p1], a[p1:p2], ..., a[pk:]\<close> for ascending positions.\<close>
  "np_split a ps = map (\<lambda>(i, j). take (j - i) (drop i a)) (zip (0 # ps) (ps @ [length a]))"

definition split_runs :: "int list \<Rightarrow> int list list" where
  \<comment> \<open>Line 434: \<^verbatim>\<open>np.split(where_sp, np.where(np.diff(where_sp) != 1)[0] + 1)\<close>\<close>
  "split_runs where_sp =
     np_split where_sp (map (\<lambda>p. p + 1) (np_where (map (\<lambda>d. d \<noteq> 1) (np_diff where_sp))))"

definition run_start :: "real \<Rightarrow> int list \<Rightarrow> real" where
  "run_start sf k = real_of_int (hd k) / sf"

definition run_end :: "real \<Rightarrow> int list \<Rightarrow> real" where
  "run_end sf k = real_of_int (last k) / sf"

definition run_dur :: "real \<Rightarrow> int list \<Rightarrow> real" where
  \<comment> \<open>Lines 437-439: \<^verbatim>\<open>sp_dur = sp_end - sp_start\<close>, from \<^verbatim>\<open>[k[0], k[-1]] / sf\<close>.\<close>
  "run_dur sf k = run_end sf k - run_start sf k"

definition good_duration :: "real \<times> real \<Rightarrow> real \<Rightarrow> bool" where
  \<comment> \<open>Line 442: \<^verbatim>\<open>np.logical_and(sp_dur > duration[0], sp_dur < duration[1])\<close>\<close>
  "good_duration duration d = (d > fst duration \<and> d < snd duration)"

definition argmax :: "real list \<Rightarrow> nat" where
  \<comment> \<open>\<^verbatim>\<open>.argmax()\<close> of a non-empty array: the first position of the maximum.\<close>
  "argmax xs = (let m = fold max xs (hd xs) in length (takeWhile (\<lambda>v. v \<noteq> m) xs))"

definition spindle_params ::
  "prims \<Rightarrow> real \<Rightarrow> real list \<Rightarrow> criteria \<Rightarrow> int list \<Rightarrow> int list \<Rightarrow> error + spindle" where
  \<comment> \<open>The body of the loop, lines 463-480, for the run \<open>k = sp[i]\<close>. \<^verbatim>\<open>np.ptp\<close> of an
      empty array and \<^verbatim>\<open>argmax\<close> of an empty array raise ValueError.\<close>
  "spindle_params P sf data c idx_sum k =
    (case fancy data k of Inl e \<Rightarrow> Inl e | Inr seg \<Rightarrow>
     let sp_det = detrend P seg in
     if sp_det = [] then Inl ValueError
     else
     let sp_amp = fold max sp_det (hd sp_det) - fold min sp_det (hd sp_det);
         sp_rms = rms sp_det
     in
     case fancy (c_abs_pow_log c) k of Inl e \<Rightarrow> Inl e | Inr a \<Rightarrow>
     case fancy (c_rel_pow c) k of Inl e \<Rightarrow> Inl e | Inr r \<Rightarrow>
     case fancy (c_inst_freq c) k of Inl e \<Rightarrow> Inl e | Inr fr \<Rightarrow>
     case fancy idx_sum k of Inl e \<Rightarrow> Inl e | Inr votes \<Rightarrow>
     let thresh = percentile P (map (\<lambda>v. Fin (real_of_int v)) votes) 75;
         sp_conf = (if thresh = Fin 4 then ''high'' else ''medium'');
         distance = 60 * sf / 1000;
         peaks = find_peaks P sp_det distance
     in if peaks = [] then Inl ValueError
        else Inr \<lparr>Start = run_start sf k, End = run_end sf k, Duration = run_dur sf k,
                  Amplitude = sp_amp, RMS = sp_rms,
                  AbsPower = fl_mean a, RelPower = fl_mean r, Frequency = median P fr,
                  Oscillations = length peaks,
                  Symmetry = fl_divide (Fin (real (fst (peaks ! argmax (map snd peaks)))))
                               (Fin (real (length sp_det))),
                  Confidence = sp_conf\<rparr>)"

definition blank_row :: "real \<Rightarrow> int list \<Rightarrow> spindle" where
  \<comment> \<open>Lines 450-458: the row of a run the loop skips.\<close>
  "blank_row sf k =
     \<lparr>Start = run_start sf k, End = run_end sf k, Duration = run_dur sf k,
      Amplitude = 0, RMS = Fin 0, AbsPower = Fin 0, RelPower = Fin 0, Frequency = 0,
      Oscillations = 0, Symmetry = Fin 0, Confidence = ''''\<rparr>"

fun sp_rows ::
  "(int list \<Rightarrow> error + spindle) \<Rightarrow> real \<Rightarrow> real \<times> real \<Rightarrow> int list list
     \<Rightarrow> error + spindle list" where
  \<comment> \<open>The loop of line 463 over the runs of good duration, in order; an exception ends it.\<close>
  "sp_rows params sf duration [] = Inr []"
| "sp_rows params sf duration (k # sp) =
    (if good_duration duration (run_dur sf k)
     then (case params k of
             Inl e \<Rightarrow> Inl e
           | Inr row \<Rightarrow>
              (case sp_rows params sf duration sp of
                 Inl e \<Rightarrow> Inl e
               | Inr rows \<Rightarrow> Inr (row # rows)))
     else (case sp_rows params sf duration sp of
             Inl e \<Rightarrow> Inl e
           | Inr rows \<Rightarrow> Inr (blank_row sf k # rows)))"

definition events_of ::
  "prims \<Rightarrow> real \<Rightarrow> real list \<Rightarrow> criteria \<Rightarrow> int list \<Rightarrow> real \<times> real \<Rightarrow> real option
     \<Rightarrow> error + spindle list option" where
  \<comment> \<open>Lines 421-495: from \<open>idx_sum\<close> to the data frame; \<open>None\<close> is Python's \<open>None\<close>.\<close>
  "events_of P sf data c idx_sum duration min_distance =
    (let where_sp = where_sp_of idx_sum
     in if length where_sp = 0 then Inr None
        else
          let where_sp = merge_events min_distance sf where_sp;
              sp = split_runs where_sp;
              good_dur = map (\<lambda>k. good_duration duration (run_dur sf k)) sp
          in if list_all Not good_dur then Inr None
             else case sp_rows (spindle_params P sf data c idx_sum) sf duration sp of
                    Inl e \<Rightarrow> Inl e
                  | Inr rows \<Rightarrow> Inr (Some (np_mask rows good_dur)))"

definition spindles_detect ::
  "prims \<Rightarrow> real list \<Rightarrow> real \<Rightarrow> real \<times> real \<Rightarrow> real \<times> real \<Rightarrow> real \<times> real \<Rightarrow> real option
     \<Rightarrow> (string \<rightharpoonup> real) \<Rightarrow> stage list \<times> (error + spindle list option)" where
  \<comment> \<open>\<^verbatim>\<open>spindles_detect(data, sf, freq_sp, duration, freq_broad, min_distance, thresh)\<close>\<close>
  "spindles_detect P data sf freq_sp duration freq_broad min_distance thresh =
    (case detect_votes P data sf freq_sp freq_broad thresh of
       (trace, Inl e) \<Rightarrow> (trace, Inl e)
     | (trace, Inr (sf, data, c, idx_sum)) \<Rightarrow>
         (trace, events_of P sf data c idx_sum duration min_distance))"

section \<open>An instance of the numeric primitives\<close>

definition sample_prims :: prims where
  \<comment> \<open>Stand-ins for the library routines, simple enough to evaluate: all-pass filters, a
      transform with the single frequency bin 12 Hz holding the sample itself, constant
      interpolation, one peak at the start of a segment.\<close>
  "sample_prims =
    \<lparr>resample = (\<lambda>data fac. data),
     filter_data = (\<lambda>data sf lo hi. data),
     stft = (\<lambda>data sf nperseg noverlap.
               ([12], map real [0..<length data], map (\<lambda>v. [Complex v 0]) data)),
     interp1d = (\<lambda>t out t'. map (\<lambda>_. Fin 1) t'),
     interp2d = (\<lambda>t f Sxx t' f'. Sxx),
     next_fast_len = (\<lambda>n. n),
     hilbert = (\<lambda>data n. map (\<lambda>v. Complex v 0) data),
     angle = (\<lambda>z. 0),
     percentile = (\<lambda>a q. Fin q),
     detrend = (\<lambda>x. x),
     find_peaks = (\<lambda>x distance. if x = [] then [] else [(0, 1)]),
     median = (\<lambda>a. if a = [] then 0 else a ! (length a div 2))\<rparr>"

fun bandpass_calls :: "stage list \<Rightarrow> (real \<times> real) list" where
  \<comment> \<open>The bands of the bandpass filters in a list of completed computations, in order.\<close>
  "bandpass_calls [] = []"
| "bandpass_calls (Bandpass lo hi # tr) = (lo, hi) # bandpass_calls tr"
| "bandpass_calls (_ # tr) = bandpass_calls tr"





section \<open>A small input\<close>





section \<open>Properties of the merge\<close>

lemma map_nth_filter_upt:
  "map ((!) xs) (filter (\<lambda>p. R (xs ! p)) [0..<length xs]) = filter R xs"
proof (induction xs rule: rev_induct)
  case Nil
  then show ?case by simp
next
  case (snoc x xs)
  have a: "filter (\<lambda>p. R ((xs @ [x]) ! p)) [0..<length xs] = filter (\<lambda>p. R (xs ! p)) [0..<length xs]"
    by (rule filter_cong) (auto simp: nth_append)
  have b: "map ((!) (xs @ [x])) (filter (\<lambda>p. R (xs ! p)) [0..<length xs])
         = map ((!) xs) (filter (\<lambda>p. R (xs ! p)) [0..<length xs])"
    by (rule map_cong) (auto simp: nth_append)
  show ?case using snoc by (simp add: a b)
qed

lemma np_where_map: "np_where (map Q xs) = filter (\<lambda>p. Q (xs ! p)) [0..<length xs]"
  unfolding np_where_def by (auto intro: filter_cong)

lemma bad_eq:
  "map ((!) (np_where (map (\<lambda>d. d > 1) (np_diff index))))
      (np_where (map (\<lambda>d. real_of_int d < md)
         (np_mask (np_diff index) (map (\<lambda>d. d > 1) (np_diff index)))))
   = bad_gaps index md"
proof -
  let ?D = "np_diff index"
  let ?I = "np_where (map (\<lambda>d. d > 1) ?D)"
  have I: "?I = filter (\<lambda>j. 1 < gap index j) [0..<length index - 1]"
    unfolding np_where_map unfolding np_diff_def gap_def by (auto intro: filter_cong)
  have lt: "\<And>p. p < length ?I \<Longrightarrow> ?I ! p < length ?D"
    by (metis (no_types, lifting) np_where_def nth_mem mem_Collect_eq set_filter
        atLeastLessThan_iff set_upt length_map)
  have "np_where (map (\<lambda>d. real_of_int d < md) (np_mask ?D (map (\<lambda>d. d > 1) ?D)))
      = filter (\<lambda>p. real_of_int (gap index (?I ! p)) < md) [0..<length ?I]"
    unfolding np_mask_def np_where_map[of _ "map ((!) ?D) ?I"]
    apply simp
    apply (rule filter_cong)
     apply simp
    using lt by (simp add: np_diff_def gap_def)
  then have "map ((!) ?I) (np_where (map (\<lambda>d. real_of_int d < md) (np_mask ?D (map (\<lambda>d. d > 1) ?D))))
     = filter (\<lambda>j. real_of_int (gap index j) < md) ?I"
    using map_nth_filter_upt[of ?I "\<lambda>j. real_of_int (gap index j) < md"] by simp
  also have "\<dots> = bad_gaps index md"
    unfolding I bad_gaps_def by (simp add: conj_commute)
  finally show ?thesis .
qed

lemma edf_unfold:
  "events_distance_fill index ms sf =
     (if bad_gaps index (ms / 1000 * sf) \<noteq> []
      then sort (index @ fill_of index (ms / 1000 * sf)) else index)"
  unfolding events_distance_fill_def Let_def bad_eq fill_of_def by simp

lemma fill_of_Nil: "bad_gaps index md = [] \<Longrightarrow> fill_of index md = []"
  by (simp add: fill_of_def)

lemma edf_mset:
  "mset (events_distance_fill index ms sf) = mset index + mset (fill_of index (ms / 1000 * sf))"
  by (simp add: edf_unfold fill_of_Nil)

lemma edf_set:
  "set (events_distance_fill index ms sf) = set index \<union> set (fill_of index (ms / 1000 * sf))"
  by (simp add: edf_unfold fill_of_Nil)

lemma edf_sorted: "sorted index \<Longrightarrow> sorted (events_distance_fill index ms sf)"
  by (simp add: edf_unfold)

lemma set_fill_of:
  "k \<in> set (fill_of index md) \<longleftrightarrow>
     (\<exists>j. Suc j < length index \<and> real_of_int (gap index j) < md
          \<and> index ! j < k \<and> k < index ! Suc j)"
  unfolding fill_of_def bad_gaps_def np_arange_int_def gap_def
  by (auto simp: less_diff_conv)

lemma sorted_hd_le: "sorted xs \<Longrightarrow> x \<in> set xs \<Longrightarrow> hd xs \<le> (x::int)"
  by (cases xs) auto

lemma sorted_le_last: "sorted xs \<Longrightarrow> x \<in> set xs \<Longrightarrow> (x::int) \<le> last xs"
  by (induction xs) (auto split: if_splits)


lemma sorted_subseq:
  "sorted xs \<Longrightarrow> sorted ys \<Longrightarrow> mset xs \<subseteq># mset ys \<Longrightarrow> subseq xs (ys::int list)"
proof (induction ys arbitrary: xs)
  case Nil
  then show ?case by simp
next
  case (Cons y ys)
  show ?case
  proof (cases xs)
    case Nil
    then show ?thesis by simp
  next
    case (Cons x xs')
    have xin: "x \<in> set (y # ys)"
      using Cons.prems(3) Cons by (metis list.set_intros(1) mset_subset_eqD set_mset_mset)
    show ?thesis
    proof (cases "x = y")
      case True
      have "mset xs' \<subseteq># mset ys" using Cons.prems(3) Cons True by simp
      moreover have "sorted xs'" "sorted ys" using Cons.prems Cons by auto
      ultimately have "subseq xs' ys" using Cons.IH by blast
      then show ?thesis using Cons True by simp
    next
      case False
      have "y \<le> x" using xin Cons.prems(2) by auto
      with False have "y < x" by simp
      then have "y \<notin> set xs" using Cons.prems(1) Cons by auto
      then have "mset xs \<subseteq># mset ys"
        using Cons.prems(3)
        by (metis add_mset_remove_trivial_If diff_single_trivial in_multiset_in_set
            mset.simps(2) subset_eq_diff_conv add_mset_add_single)
      moreover have "sorted ys" using Cons.prems by auto
      ultimately have "subseq xs ys" using Cons.IH Cons.prems(1) by blast
      then show ?thesis by (rule list_emb_Cons)
    qed
  qed
qed

text \<open>
  Claim C10. On a sorted array of candidate indices, \<^verbatim>\<open>_events_distance_fill\<close> returns a
  sorted array that keeps every input index, in the input's order; each index it adds
  lies strictly between two consecutive input indices whose difference is below
  \<open>min_distance_ms / 1000 * sf\<close>; the first and the last index are those of the input.
\<close>

theorem events_distance_fill_keeps_indices:
  assumes "sorted index"
  shows "sorted (events_distance_fill index ms sf)
       \<and> mset index \<subseteq># mset (events_distance_fill index ms sf)
       \<and> subseq index (events_distance_fill index ms sf)
       \<and> (\<forall>k \<in># mset (events_distance_fill index ms sf) - mset index.
             \<exists>j. Suc j < length index \<and> index ! j < k \<and> k < index ! Suc j
               \<and> real_of_int (index ! Suc j - index ! j) < ms / 1000 * sf)
       \<and> (index \<noteq> [] \<longrightarrow> hd (events_distance_fill index ms sf) = hd index
                           \<and> last (events_distance_fill index ms sf) = last index)"
proof -
  let ?out = "events_distance_fill index ms sf"
  let ?md = "ms / 1000 * sf"
  have s: "sorted ?out" using assms by (rule edf_sorted)
  have m: "mset index \<subseteq># mset ?out" by (simp add: edf_mset)
  have sub: "subseq index ?out" using assms s m by (rule sorted_subseq)
  have extra: "mset ?out - mset index = mset (fill_of index ?md)" by (simp add: edf_mset)
  have btw: "\<forall>k \<in># mset ?out - mset index.
             \<exists>j. Suc j < length index \<and> index ! j < k \<and> k < index ! Suc j
               \<and> real_of_int (index ! Suc j - index ! j) < ?md"
    unfolding extra using set_fill_of[of _ index ?md] by (auto simp: gap_def)
  have ends: "hd ?out = hd index \<and> last ?out = last index" if ne: "index \<noteq> []"
  proof -
    have one: "?out \<noteq> []" using ne m by auto
    have hin: "hd index \<in> set ?out" "last index \<in> set ?out"
      using ne by (auto simp: edf_set)
    have bounds: "hd index \<le> k \<and> k \<le> last index" if "k \<in> set ?out" for k
    proof (cases "k \<in> set index")
      case True
      then show ?thesis using assms sorted_hd_le sorted_le_last by blast
    next
      case False
      then have "k \<in> set (fill_of index ?md)" using that by (simp add: edf_set)
      then obtain j where j: "Suc j < length index" "index ! j < k" "k < index ! Suc j"
        using set_fill_of by blast
      have "hd index \<le> index ! j" using assms j(1) sorted_hd_le by (simp add: Suc_lessD)
      moreover have "index ! Suc j \<le> last index" using assms j(1) sorted_le_last by simp
      ultimately show ?thesis using j by linarith
    qed
    have "hd ?out \<le> hd index" using s hin(1) by (rule sorted_hd_le)
    moreover have "hd index \<le> hd ?out" using bounds one by simp
    moreover have "last index \<le> last ?out" using s hin(2) by (rule sorted_le_last)
    moreover have "last ?out \<le> last index" using bounds one by simp
    ultimately show ?thesis by simp
  qed
  show ?thesis using s m sub btw ends by blast
qed

theorem events_distance_fill_keeps_indices_witness:
  "sorted [10, 11, 12, 60, 61::int]
   \<and> sorted (events_distance_fill [10, 11, 12, 60, 61] 500 100)
   \<and> subseq [10, 11, 12, 60, 61] (events_distance_fill [10, 11, 12, 60, 61] 500 100)
   \<and> hd (events_distance_fill [10, 11, 12, 60, 61] 500 100) = 10
   \<and> last (events_distance_fill [10, 11, 12, 60, 61] 500 100) = 61"
  using events_distance_fill_keeps_indices[of "[10, 11, 12, 60, 61]" 500 100] by simp



section \<open>Properties of the boolean vector\<close>










section \<open>Properties of the moving transformation\<close>


lemma length_np_arange: "length (np_arange a b s) = nat \<lceil>(b - a) / s\<rceil>"
  by (simp add: np_arange_def)









section \<open>Properties of the correlation\<close>











section \<open>Properties of the detector\<close>

lemma bandpass_calls_append: "bandpass_calls (a @ b) = bandpass_calls a @ bandpass_calls b"
  by (induction a rule: bandpass_calls.induct) auto

lemma preprocess_trace:
  "bandpass_calls (fst (preprocess P data sf freq_sp freq_broad))
     = [freq_broad, (if snd freq_sp - fst freq_sp > 3
         then (fst freq_sp + 1, snd freq_sp - 1) else freq_sp)]"
  by (simp add: preprocess_def Let_def bandpass_calls_append split: prod.splits)

lemma compute_criteria_trace:
  "bandpass_calls (fst (compute_criteria P sf data data_sigma freq_sp freq_broad)) = []"
  by (auto simp: compute_criteria_def Let_def split: sum.splits prod.splits)

lemma detect_votes_trace:
  assumes "fst freq_sp < snd freq_sp" "fst freq_broad < snd freq_broad"
  shows "bandpass_calls (fst (detect_votes P data sf freq_sp freq_broad thresh))
     = [freq_broad, (if snd freq_sp - fst freq_sp > 3
         then (fst freq_sp + 1, snd freq_sp - 1) else freq_sp)]"
proof -
  obtain tr sf' d ds where p: "preprocess P data sf freq_sp freq_broad = (tr, sf', d, ds)"
    by (metis prod_cases4)
  have "fst (detect_votes P data sf freq_sp freq_broad thresh)
      = tr @ fst (compute_criteria P sf' d ds freq_sp freq_broad)"
    using assms p by (simp add: detect_votes_def split: prod.splits sum.splits)
  then show ?thesis
    using preprocess_trace[of P data sf freq_sp freq_broad] p
    by (simp add: bandpass_calls_append compute_criteria_trace)
qed

lemma spindles_detect_trace:
  "fst (spindles_detect P data sf freq_sp duration freq_broad min_distance thresh)
     = fst (detect_votes P data sf freq_sp freq_broad thresh)"
  by (simp add: spindles_detect_def split: prod.splits sum.splits)

text \<open>
  Claim C1, as stated, fails: the sigma filter does not widen the band. With the default
  band from 11 to 16 Hz the second bandpass runs from 12 to 15 Hz, not from 10 to 17 Hz.
\<close>

theorem sigma_band_counterexample:
  "bandpass_calls (fst (spindles_detect sample_prims [0, 1, 1, 1, 0, 0, 0, 0] 100 (11, 16)
     (3/10, 5/2) (1/2, 30) (Some 500)
     [''abs_pow'' \<mapsto> 5/4, ''rel_pow'' \<mapsto> 1/5, ''rms'' \<mapsto> 95, ''corr'' \<mapsto> 69/100]))
   = [(1/2, 30), (12, 15)]"
  using detect_votes_trace[of "(11, 16)" "(1/2, 30)" sample_prims "[0, 1, 1, 1, 0, 0, 0, 0]" 100]
  by (simp add: spindles_detect_trace)

text \<open>
  Claim C1, amended. With both bands in order, the detector runs two bandpass filters:
  the first on \<open>freq_broad\<close>, the second, from the broadband signal to the sigma signal,
  on the band narrowed by 1 Hz on each side, from \<open>freq_sp[0] + 1\<close> to \<open>freq_sp[1] - 1\<close>,
  when \<open>freq_sp\<close> is wider than 3 Hz, and on \<open>freq_sp\<close> unchanged otherwise.
\<close>

theorem sigma_band_narrowed:
  assumes "fst freq_sp < snd freq_sp" and "fst freq_broad < snd freq_broad"
  shows "bandpass_calls
           (fst (spindles_detect P data sf freq_sp duration freq_broad min_distance thresh))
         = [freq_broad,
            if snd freq_sp - fst freq_sp > 3
            then (fst freq_sp + 1, snd freq_sp - 1) else freq_sp]
       \<and> (case preprocess P data sf freq_sp freq_broad of
            (trace, sf', broad, data_sigma) \<Rightarrow>
              data_sigma =
                (if snd freq_sp - fst freq_sp > 3
                 then filter_data P broad sf' (fst freq_sp + 1) (snd freq_sp - 1)
                 else filter_data P broad sf' (fst freq_sp) (snd freq_sp)))"
proof -
  have "case preprocess P data sf freq_sp freq_broad of
          (trace, sf', broad, data_sigma) \<Rightarrow>
            data_sigma =
              (if snd freq_sp - fst freq_sp > 3
               then filter_data P broad sf' (fst freq_sp + 1) (snd freq_sp - 1)
               else filter_data P broad sf' (fst freq_sp) (snd freq_sp))"
    by (simp add: preprocess_def Let_def split: prod.splits)
  then show ?thesis
    using detect_votes_trace[OF assms] by (simp add: spindles_detect_trace)
qed

theorem sigma_band_narrowed_witness:
  "(11::real) < 16
   \<and> bandpass_calls (fst (spindles_detect sample_prims [0, 1, 1, 1, 0, 0, 0, 0] 100 (11, 16)
        (3/10, 5/2) (1/2, 30) (Some 500)
        [''abs_pow'' \<mapsto> 5/4, ''rel_pow'' \<mapsto> 1/5, ''rms'' \<mapsto> 95, ''corr'' \<mapsto> 69/100]))
      = [(1/2, 30), (12, 15)]"
  using sigma_band_narrowed[where freq_sp="(11, 16)" and freq_broad="(1/2, 30)"
      and P=sample_prims and data="[0, 1, 1, 1, 0, 0, 0, 0]" and sf=100]
  by simp












lemma log10_inv_pow: "log 10 (1 / 10 ^ n) = - real n"
proof -
  have "log 10 (1 / 10 ^ n) = - log 10 (10 ^ n)"
    by (simp add: log_divide)
  then show ?thesis by (simp add: log_nat_power)
qed

lemma abs_pow_log_of_Fin:
  "abs_pow_log_of (map Fin rs)
     = map (\<lambda>r. Fin (if r = 0 then log 10 (1 / 10 ^ 9) else log 10 (r * r))) rs"
  by (induction rs) (auto simp: abs_pow_log_of_def fl_le_def Let_def not_le
      mult_le_0_iff zero_less_mult_iff)

lemma criteria_abs_pow_log:
  "compute_criteria P sf data data_sigma fsp fb = (tr, Inr c)
     \<Longrightarrow> c_abs_pow_log c = abs_pow_log_of (c_mrms c)"
  by (auto simp: compute_criteria_def Let_def split: sum.splits prod.splits)

subsection \<open>The detector on the small input\<close>
















subsection \<open>The claims on the detector\<close>








text \<open>
  Claim C6, as stated, fails: only a squared RMS of zero (or less) is replaced. A moving
  RMS of \<open>1e-6\<close> has the square \<open>1e-12\<close>, and the stored value is \<open>-12\<close>, below
  \<open>log10(1e-9) = -9\<close>.
\<close>

theorem abs_pow_log_counterexample:
  "abs_pow_log_of [Fin (1 / 10 ^ 6)] = [Fin (- 12)] \<and> (- 12 :: real) < log 10 (1 / 10 ^ 9)"
proof -
  have a: "(1 / 10 ^ 6) * (1 / 10 ^ 6) = (1 / 10 ^ 12 :: real)" by simp
  have "abs_pow_log_of [Fin (1 / 10 ^ 6)] = [Fin (log 10 (1 / 10 ^ 12))]"
    using abs_pow_log_of_Fin[of "[1 / 10 ^ 6]"] by (simp only: list.map a) simp
  then show ?thesis using log10_inv_pow[of 12] log10_inv_pow[of 9] by simp
qed

text \<open>
  Claim C6, amended. For every sample whose moving RMS \<open>r\<close> is finite, the stored
  \<open>abs_pow_log\<close> is finite: it is \<open>log10(r * r)\<close>, and \<open>log10(1e-9)\<close> when \<open>r\<close> is zero; it is
  below \<open>log10(1e-9)\<close> exactly when \<open>0 < r * r < 1e-9\<close>.
\<close>

theorem abs_pow_log_replaces_zero_only:
  assumes "i < length rs"
  shows "\<exists>v. abs_pow_log_of (map Fin rs) ! i = Fin v
           \<and> v = (if rs ! i = 0 then log 10 (1 / 10 ^ 9) else log 10 (rs ! i * rs ! i))
           \<and> (v < log 10 (1 / 10 ^ 9) \<longleftrightarrow> rs ! i \<noteq> 0 \<and> rs ! i * rs ! i < 1 / 10 ^ 9)"
proof -
  let ?r = "rs ! i"
  have "abs_pow_log_of (map Fin rs) ! i
      = Fin (if ?r = 0 then log 10 (1 / 10 ^ 9) else log 10 (?r * ?r))"
    using assms by (simp add: abs_pow_log_of_Fin)
  moreover have "log 10 (?r * ?r) < log 10 (1 / 10 ^ 9) \<longleftrightarrow> ?r * ?r < 1 / 10 ^ 9" if "?r \<noteq> 0"
  proof -
    have "0 < ?r * ?r" using that by (auto simp: zero_less_mult_iff)
    then show ?thesis by (subst log_less_cancel_iff) auto
  qed
  ultimately show ?thesis by auto
qed

theorem abs_pow_log_replaces_zero_only_witness:
  "(1::nat) < length [0, 1 / 10 ^ 6 :: real]
   \<and> (\<exists>v. abs_pow_log_of (map Fin [0, 1 / 10 ^ 6]) ! 1 = Fin v \<and> v < log 10 (1 / 10 ^ 9))"
  using abs_pow_log_replaces_zero_only[of 1 "[0, 1 / 10 ^ 6]"] by auto

end
